theory Spec2Isabelle
  imports Main
begin

text \<open>
  The client of the monitoring service: its store, the WebSocket hook that feeds the
  store, the notifications list and the form that creates monitors, each translated from
  its JavaScript source; and the change detector of the backend, after the
  specification. Definitions come first, their properties after.
\<close>

section \<open>JavaScript values and objects\<close>

text \<open>
  The values that reach the client store come out of \<^verbatim>\<open>JSON.parse\<close> (server responses
  and WebSocket frames) or are written by the store itself. A primitive is modelled by
  its constructor; an object or array held in a field (\<^verbatim>\<open>data\<close>, \<^verbatim>\<open>metadata\<close>) is a
  reference \<open>JRef\<close>, since the store never looks inside it. JSON has no literal for NaN,
  so on these values the strict equality \<^verbatim>\<open>===\<close> is equality of constructors and
  contents (references compare by identity). A number held in an object is an integer
  here: the store copies and compares such numbers and never computes with them.
\<close>

datatype jsval =
    JUndefined
  | JNull
  | JBool bool
  | JNum int
  | JStr string
  | JRef nat

text \<open>
  A plain object is a finite map from property names to values. A key bound to
  \<open>JUndefined\<close> is present (as in \<^verbatim>\<open>{a: undefined}\<close>); reading an absent key gives
  \<^verbatim>\<open>undefined\<close> as well.
\<close>

type_synonym jsobj = "string \<rightharpoonup> jsval"

definition get_prop :: "jsobj \<Rightarrow> string \<Rightarrow> jsval" where
  "get_prop obj k = (case obj k of None \<Rightarrow> JUndefined | Some v \<Rightarrow> v)"

definition strict_eq :: "jsval \<Rightarrow> jsval \<Rightarrow> bool" where
  "strict_eq a b = (a = b)"

fun truthy :: "jsval \<Rightarrow> bool" where
  "truthy JUndefined = False"
| "truthy JNull = False"
| "truthy (JBool b) = b"
| "truthy (JNum n) = (n \<noteq> 0)"
| "truthy (JStr s) = (s \<noteq> [])"
| "truthy (JRef r) = True"

text \<open>\<^verbatim>\<open>{ ...a, ...b }\<close>: the own properties of \<open>a\<close>, overridden by those of \<open>b\<close>.\<close>

definition spread :: "jsobj \<Rightarrow> jsobj \<Rightarrow> jsobj" where
  "spread a b = a ++ b"

section \<open>The application store (\<^verbatim>\<open>store/appStore.js\<close>)\<close>

record pagination =
  page :: int
  per_page :: int
  total :: int
  has_more :: bool

text \<open>One of the three collections \<^verbatim>\<open>summaries\<close>, \<^verbatim>\<open>monitors\<close>, \<^verbatim>\<open>notifications\<close>.\<close>

record slice =
  items :: "jsobj list"
  loading :: bool
  error :: jsval
  pagination :: pagination

record ui_state =
  sidebarOpen :: bool
  currentUrl :: string
  ui_loading :: bool
  ui_error :: jsval
  toast :: jsval

record stats_state =
  stats_summaries :: jsval
  stats_monitors :: jsval
  stats_notifications :: jsval
  stats_loading :: bool
  stats_error :: jsval

record app_state =
  ui :: ui_state
  summaries :: slice
  monitors :: slice
  notifications :: slice
  currentSummary :: jsval
  stats :: stats_state

definition initial_pagination :: pagination where
  "initial_pagination = \<lparr>page = 1, per_page = 20, total = 0, has_more = False\<rparr>"

definition initial_slice :: slice where
  "initial_slice = \<lparr>items = [], loading = False, error = JNull, pagination = initial_pagination\<rparr>"

definition initial_state :: app_state where
  "initial_state =
     \<lparr>ui = \<lparr>sidebarOpen = False, currentUrl = [], ui_loading = False, ui_error = JNull,
             toast = JNull\<rparr>,
      summaries = initial_slice,
      monitors = initial_slice,
      notifications = initial_slice,
      currentSummary = JNull,
      stats = \<lparr>stats_summaries = JNull, stats_monitors = JNull, stats_notifications = JNull,
                stats_loading = False, stats_error = JNull\<rparr>\<rparr>"

subsection \<open>Summary actions\<close>

definition addSummary :: "jsobj \<Rightarrow> app_state \<Rightarrow> app_state" where
  "addSummary summary s =
     s\<lparr>summaries := (summaries s)
         \<lparr>items := summary # items (summaries s),
          pagination := (pagination (summaries s))
             \<lparr>total := total (pagination (summaries s)) + 1\<rparr>\<rparr>\<rparr>"

definition removeSummary :: "jsval \<Rightarrow> app_state \<Rightarrow> app_state" where
  "removeSummary i s =
     s\<lparr>summaries := (summaries s)
         \<lparr>items := filter (\<lambda>summary. \<not> strict_eq (get_prop summary ''id'') i) (items (summaries s)),
          pagination := (pagination (summaries s))
             \<lparr>total := max 0 (total (pagination (summaries s)) - 1)\<rparr>\<rparr>\<rparr>"

subsection \<open>Monitor actions\<close>

definition addMonitor :: "jsobj \<Rightarrow> app_state \<Rightarrow> app_state" where
  "addMonitor monitor s =
     s\<lparr>monitors := (monitors s)
         \<lparr>items := monitor # items (monitors s),
          pagination := (pagination (monitors s))
             \<lparr>total := total (pagination (monitors s)) + 1\<rparr>\<rparr>\<rparr>"

definition updateMonitor :: "jsval \<Rightarrow> jsobj \<Rightarrow> app_state \<Rightarrow> app_state" where
  "updateMonitor i updates s =
     s\<lparr>monitors := (monitors s)
         \<lparr>items := map (\<lambda>monitor. if strict_eq (get_prop monitor ''id'') i
                                   then spread monitor updates else monitor)
                        (items (monitors s))\<rparr>\<rparr>"

definition removeMonitor :: "jsval \<Rightarrow> app_state \<Rightarrow> app_state" where
  "removeMonitor i s =
     s\<lparr>monitors := (monitors s)
         \<lparr>items := filter (\<lambda>monitor. \<not> strict_eq (get_prop monitor ''id'') i) (items (monitors s)),
          pagination := (pagination (monitors s))
             \<lparr>total := max 0 (total (pagination (monitors s)) - 1)\<rparr>\<rparr>\<rparr>"

subsection \<open>Notification actions\<close>

definition addNotification :: "jsobj \<Rightarrow> app_state \<Rightarrow> app_state" where
  "addNotification notification s =
     s\<lparr>notifications := (notifications s)
         \<lparr>items := notification # items (notifications s),
          pagination := (pagination (notifications s))
             \<lparr>total := total (pagination (notifications s)) + 1\<rparr>\<rparr>\<rparr>"

text \<open>
  \<^verbatim>\<open>new Date().toISOString()\<close> reads the clock. The clock is an input of the model: a
  function that gives, for a position \<open>k\<close> of the list, the string the clock returns
  when the callback of \<^verbatim>\<open>map\<close> rewrites the element at that position. (The callback
  reads the clock for the elements it rewrites only.)
\<close>

type_synonym clock = "nat \<Rightarrow> string"

definition markNotificationRead :: "clock \<Rightarrow> jsval \<Rightarrow> app_state \<Rightarrow> app_state" where
  "markNotificationRead now i s =
     s\<lparr>notifications := (notifications s)
         \<lparr>items := map (\<lambda>(k, notification).
                           if strict_eq (get_prop notification ''id'') i
                           then notification(''is_read'' \<mapsto> JBool True,
                                             ''read_at'' \<mapsto> JStr (now k))
                           else notification)
                        (enumerate 0 (items (notifications s)))\<rparr>\<rparr>"

definition markAllNotificationsRead :: "clock \<Rightarrow> app_state \<Rightarrow> app_state" where
  "markAllNotificationsRead now s =
     s\<lparr>notifications := (notifications s)
         \<lparr>items := map (\<lambda>(k, notification).
                           notification(''is_read'' \<mapsto> JBool True,
                                        ''read_at'' \<mapsto> JStr (now k)))
                        (enumerate 0 (items (notifications s)))\<rparr>\<rparr>"

definition removeNotification :: "jsval \<Rightarrow> app_state \<Rightarrow> app_state" where
  "removeNotification i s =
     s\<lparr>notifications := (notifications s)
         \<lparr>items := filter (\<lambda>notification. \<not> strict_eq (get_prop notification ''id'') i)
                           (items (notifications s)),
          pagination := (pagination (notifications s))
             \<lparr>total := max 0 (total (pagination (notifications s)) - 1)\<rparr>\<rparr>\<rparr>"

subsection \<open>Sequences of add and remove actions\<close>

datatype store_op =
    AddSummary jsobj
  | RemoveSummary jsval
  | AddMonitor jsobj
  | RemoveMonitor jsval
  | AddNotification jsobj
  | RemoveNotification jsval

fun apply_op :: "store_op \<Rightarrow> app_state \<Rightarrow> app_state" where
  "apply_op (AddSummary x) s = addSummary x s"
| "apply_op (RemoveSummary i) s = removeSummary i s"
| "apply_op (AddMonitor x) s = addMonitor x s"
| "apply_op (RemoveMonitor i) s = removeMonitor i s"
| "apply_op (AddNotification x) s = addNotification x s"
| "apply_op (RemoveNotification i) s = removeNotification i s"

fun run_ops :: "store_op list \<Rightarrow> app_state \<Rightarrow> app_state" where
  "run_ops [] s = s"
| "run_ops (x # xs) s = run_ops xs (apply_op x s)"

definition totals_nonneg :: "app_state \<Rightarrow> bool" where
  "totals_nonneg s \<longleftrightarrow>
     0 \<le> total (pagination (summaries s)) \<and>
     0 \<le> total (pagination (monitors s)) \<and>
     0 \<le> total (pagination (notifications s))"

abbreviation monitor_items :: "app_state \<Rightarrow> jsobj list" where
  "monitor_items s \<equiv> items (monitors s)"

abbreviation notification_items :: "app_state \<Rightarrow> jsobj list" where
  "notification_items s \<equiv> items (notifications s)"

subsection \<open>A store with two monitors and two notifications\<close>

definition ex_monitors :: "jsobj list" where
  "ex_monitors =
     [[''id'' \<mapsto> JStr ''m1'', ''name'' \<mapsto> JStr ''Price watch'',
       ''current_value'' \<mapsto> JStr ''10'', ''last_checked'' \<mapsto> JStr ''t1'',
       ''last_changed'' \<mapsto> JStr ''t1''],
      [''id'' \<mapsto> JStr ''m2'', ''name'' \<mapsto> JStr ''News page'',
       ''current_value'' \<mapsto> JNull, ''last_checked'' \<mapsto> JNull,
       ''last_changed'' \<mapsto> JStr ''t0'']]"

definition ex_notifications :: "jsobj list" where
  "ex_notifications =
     [[''id'' \<mapsto> JStr ''n1'', ''title'' \<mapsto> JStr ''Monitor Alert'',
       ''message'' \<mapsto> JStr ''changed'', ''is_read'' \<mapsto> JBool False,
       ''read_at'' \<mapsto> JNull],
      [''id'' \<mapsto> JStr ''n2'', ''title'' \<mapsto> JStr ''Welcome'',
       ''message'' \<mapsto> JStr ''hello'', ''is_read'' \<mapsto> JBool False,
       ''read_at'' \<mapsto> JNull]]"

definition ex_state :: app_state where
  "ex_state =
     initial_state
       \<lparr>monitors := initial_slice
          \<lparr>items := ex_monitors, pagination := initial_pagination\<lparr>total := 2\<rparr>\<rparr>,
        notifications := initial_slice
          \<lparr>items := ex_notifications, pagination := initial_pagination\<lparr>total := 2\<rparr>\<rparr>\<rparr>"

section \<open>The WebSocket hook (\<^verbatim>\<open>hooks/useWebSocket.jsx\<close>)\<close>

subsection \<open>Incoming messages\<close>

text \<open>
  The envelope \<^verbatim>\<open>{type, data}\<close> obtained by \<^verbatim>\<open>JSON.parse\<close> from a frame; the payload
  \<^verbatim>\<open>data\<close> is a JSON object.
\<close>

record ws_message =
  msg_type :: string
  msg_data :: jsobj

text \<open>
  The object literal passed to \<^verbatim>\<open>updateMonitor\<close>. Its first two keys are always
  present; \<^verbatim>\<open>...(monitorUpdate.has_changed && {last_changed: ...})\<close> adds the third
  key when \<^verbatim>\<open>has_changed\<close> is truthy and spreads a falsy primitive, which has no
  properties, otherwise.
\<close>

definition monitor_update_fields :: "jsobj \<Rightarrow> jsobj" where
  "monitor_update_fields monitorUpdate =
     spread [''current_value'' \<mapsto> get_prop monitorUpdate ''current_value'',
             ''last_checked'' \<mapsto> get_prop monitorUpdate ''last_checked'']
            (if truthy (get_prop monitorUpdate ''has_changed'')
             then [''last_changed'' \<mapsto> get_prop monitorUpdate ''last_checked'']
             else Map.empty)"

text \<open>
  The effect of \<^verbatim>\<open>handleMessage\<close> on the store. The toasts shown for a notification
  and the console output of the other branches do not touch the store.
\<close>

definition handleMessage :: "ws_message \<Rightarrow> app_state \<Rightarrow> app_state" where
  "handleMessage message s =
     (if msg_type message = ''notification'' then addNotification (msg_data message) s
      else if msg_type message = ''monitor_update'' then
        updateMonitor (get_prop (msg_data message) ''monitor_id'')
                      (monitor_update_fields (msg_data message)) s
      else s)"

definition ex_update_changed :: ws_message where
  "ex_update_changed =
     \<lparr>msg_type = ''monitor_update'',
      msg_data = [''monitor_id'' \<mapsto> JStr ''m2'', ''current_value'' \<mapsto> JStr ''42'',
                  ''last_checked'' \<mapsto> JStr ''t5'', ''has_changed'' \<mapsto> JBool True]\<rparr>"

definition ex_update_same :: ws_message where
  "ex_update_same =
     \<lparr>msg_type = ''monitor_update'',
      msg_data = [''monitor_id'' \<mapsto> JStr ''m2'', ''current_value'' \<mapsto> JStr ''42'',
                  ''last_checked'' \<mapsto> JStr ''t6'', ''has_changed'' \<mapsto> JBool False]\<rparr>"

subsection \<open>Connection state\<close>

datatype error = TypeError

datatype ready_state = CONNECTING | OPEN | CLOSING | CLOSED

text \<open>A browser WebSocket: its state and the frames handed to \<^verbatim>\<open>send\<close>.\<close>

record socket =
  readyState :: ready_state
  sent :: "string list"

text \<open>
  The hook's React state and refs together with the part of the browser they act on:
  the sockets constructed so far (\<open>sockets\<close> is the store of socket objects,
  \<open>socket_count\<close> the number allocated, \<open>wsRef\<close> an address in it), the pending
  timeouts as pairs of id and delay in milliseconds (every timeout of the hook has the
  callback \<^verbatim>\<open>connect\<close>), and the console. \<open>url_ok\<close> says whether the WebSocket
  constructor accepts the hook's url. Timer ids are positive, as in a browser.
\<close>

record ws_hook =
  url_ok :: bool
  isConnected :: bool
  connectionStatus :: string
  wsRef :: "nat option"
  reconnectTimeoutRef :: "nat option"
  sockets :: "nat \<Rightarrow> socket"
  socket_count :: nat
  timers :: "(nat \<times> nat) list"
  next_timer :: nat
  console :: "string list"

definition new_socket :: socket where
  "new_socket = \<lparr>readyState = CONNECTING, sent = []\<rparr>"

definition initial_hook :: ws_hook where
  "initial_hook =
     \<lparr>url_ok = True, isConnected = False, connectionStatus = ''disconnected'',
      wsRef = None, reconnectTimeoutRef = None,
      sockets = (\<lambda>_. new_socket), socket_count = 0,
      timers = [], next_timer = 1, console = []\<rparr>"

definition setTimeout :: "nat \<Rightarrow> ws_hook \<Rightarrow> nat \<times> ws_hook" where
  "setTimeout delay h =
     (next_timer h,
      h\<lparr>timers := timers h @ [(next_timer h, delay)], next_timer := next_timer h + 1\<rparr>)"

definition clearTimeout :: "nat \<Rightarrow> ws_hook \<Rightarrow> ws_hook" where
  "clearTimeout t h = h\<lparr>timers := filter (\<lambda>(t', d). t' \<noteq> t) (timers h)\<rparr>"

text \<open>
  \<^verbatim>\<open>if (reconnectTimeoutRef.current) { clearTimeout(...); reconnectTimeoutRef.current = null; }\<close>,
  which \<^verbatim>\<open>onopen\<close> and \<^verbatim>\<open>disconnect\<close> both contain.
\<close>

definition clear_reconnect_timeout :: "ws_hook \<Rightarrow> ws_hook" where
  "clear_reconnect_timeout h =
     (case reconnectTimeoutRef h of
        None \<Rightarrow> h
      | Some t \<Rightarrow> if t = 0 then h else (clearTimeout t h)\<lparr>reconnectTimeoutRef := None\<rparr>)"

definition connect :: "ws_hook \<Rightarrow> ws_hook" where
  "connect h =
     (let h1 = h\<lparr>connectionStatus := ''connecting''\<rparr> in
      if url_ok h1 then
        h1\<lparr>sockets := (sockets h1)(socket_count h1 := new_socket),
           socket_count := socket_count h1 + 1,
           wsRef := Some (socket_count h1)\<rparr>
      else
        h1\<lparr>console := console h1 @ [''Error connecting to WebSocket:''],
           connectionStatus := ''disconnected''\<rparr>)"

text \<open>The handlers that \<^verbatim>\<open>connect\<close> attaches to every socket it constructs.\<close>

definition onopen :: "ws_hook \<Rightarrow> ws_hook" where
  "onopen h =
     clear_reconnect_timeout
       (h\<lparr>isConnected := True, connectionStatus := ''connected'',
          console := console h @ [''WebSocket connected'']\<rparr>)"

definition onclose :: "ws_hook \<Rightarrow> ws_hook" where
  "onclose h =
     (let h1 = h\<lparr>isConnected := False, connectionStatus := ''disconnected'',
                 console := console h @ [''WebSocket disconnected'']\<rparr>;
          (t, h2) = setTimeout 3000 h1
      in h2\<lparr>reconnectTimeoutRef := Some t\<rparr>)"

definition onerror :: "ws_hook \<Rightarrow> ws_hook" where
  "onerror h =
     h\<lparr>console := console h @ [''WebSocket error:''],
       isConnected := False, connectionStatus := ''disconnected''\<rparr>"

text \<open>
  \<^verbatim>\<open>WebSocket.close()\<close>: nothing on a socket that is closing or closed; otherwise the
  socket starts closing, and the browser fires its close event once the connection is
  down.
\<close>

definition socket_close :: "nat \<Rightarrow> ws_hook \<Rightarrow> ws_hook" where
  "socket_close i h =
     (if readyState (sockets h i) = CLOSING \<or> readyState (sockets h i) = CLOSED then h
      else h\<lparr>sockets := (sockets h)(i := (sockets h i)\<lparr>readyState := CLOSING\<rparr>)\<rparr>)"

definition disconnect :: "ws_hook \<Rightarrow> ws_hook" where
  "disconnect h =
     (let h1 = clear_reconnect_timeout h;
          h2 = (case wsRef h1 of
                  Some i \<Rightarrow> (socket_close i h1)\<lparr>wsRef := None\<rparr>
                | None \<Rightarrow> h1)
      in h2\<lparr>isConnected := False, connectionStatus := ''disconnected''\<rparr>)"

text \<open>
  \<^verbatim>\<open>JSON.stringify\<close> is a parameter: it gives the serialized text, or \<open>None\<close> where it
  throws (a cyclic structure, a BigInt).
\<close>

definition sendMessage :: "('m \<Rightarrow> string option) \<Rightarrow> 'm \<Rightarrow> ws_hook \<Rightarrow> error + ws_hook" where
  "sendMessage stringify message h =
     (case wsRef h of
        Some i \<Rightarrow>
          if readyState (sockets h i) = OPEN then
            (case stringify message of
               None \<Rightarrow> Inl TypeError
             | Some frame \<Rightarrow>
                 Inr (h\<lparr>sockets := (sockets h)
                          (i := (sockets h i)\<lparr>sent := sent (sockets h i) @ [frame]\<rparr>)\<rparr>))
          else Inr (h\<lparr>console := console h @ [''WebSocket is not connected'']\<rparr>)
      | None \<Rightarrow> Inr (h\<lparr>console := console h @ [''WebSocket is not connected'']\<rparr>))"

definition socket_open :: "ws_hook \<Rightarrow> bool" where
  "socket_open h =
     (case wsRef h of None \<Rightarrow> False | Some i \<Rightarrow> readyState (sockets h i) = OPEN)"

subsection \<open>The event loop\<close>

text \<open>
  What can happen to the hook: a call of \<^verbatim>\<open>connect\<close> (the mount effect, or
  \<^verbatim>\<open>reconnect\<close>), a call of \<^verbatim>\<open>disconnect\<close> (by the caller, or the effect's cleanup),
  and the browser's events: socket \<open>i\<close> opens, closes or reports an error, and timeout
  \<open>t\<close> expires. An event that cannot occur in a state gives \<open>None\<close>: a socket opens
  only while connecting, a closed socket fires nothing more, and only a pending timeout
  expires. JavaScript runs each handler to completion, so a step is atomic.
\<close>

datatype event =
    Connect
  | Disconnect
  | Opened nat
  | Closed nat
  | Errored nat
  | Expired nat

fun step :: "event \<Rightarrow> ws_hook \<Rightarrow> ws_hook option" where
  "step Connect h = Some (connect h)"
| "step Disconnect h = Some (disconnect h)"
| "step (Opened i) h =
     (if i < socket_count h \<and> readyState (sockets h i) = CONNECTING
      then Some (onopen (h\<lparr>sockets := (sockets h)(i := (sockets h i)\<lparr>readyState := OPEN\<rparr>)\<rparr>))
      else None)"
| "step (Closed i) h =
     (if i < socket_count h \<and> readyState (sockets h i) \<noteq> CLOSED
      then Some (onclose (h\<lparr>sockets := (sockets h)(i := (sockets h i)\<lparr>readyState := CLOSED\<rparr>)\<rparr>))
      else None)"
| "step (Errored i) h =
     (if i < socket_count h \<and> readyState (sockets h i) \<noteq> CLOSED
      then Some (onerror h) else None)"
| "step (Expired t) h =
     (if t \<in> fst ` set (timers h) then Some (connect (clearTimeout t h)) else None)"

fun run :: "event list \<Rightarrow> ws_hook \<Rightarrow> ws_hook option" where
  "run [] h = Some h"
| "run (e # es) h = (case step e h of None \<Rightarrow> None | Some h' \<Rightarrow> run es h')"

text \<open>The hook after \<^verbatim>\<open>connect\<close> and the opening of its socket.\<close>

definition connected_hook :: ws_hook where
  "connected_hook =
     initial_hook
       \<lparr>isConnected := True, connectionStatus := ''connected'', wsRef := Some 0,
        sockets := (\<lambda>_. new_socket)(0 := \<lparr>readyState = OPEN, sent = []\<rparr>),
        socket_count := 1, console := [''WebSocket connected'']\<rparr>"

section \<open>The notifications page (\<^verbatim>\<open>pages/Notifications\<close>)\<close>

text \<open>
  \<^verbatim>\<open>String.prototype.substring\<close>: both indices are clamped to the string and
  swapped when out of order. The elements of a string are its UTF-16 code units, which
  \<^verbatim>\<open>length\<close> counts.
\<close>

definition substring :: "'a list \<Rightarrow> int \<Rightarrow> int \<Rightarrow> 'a list" where
  "substring s start fin =
     (let len = int (length s);
          finalStart = min (max start 0) len;
          finalEnd = min (max fin 0) len;
          from = min finalStart finalEnd;
          to = max finalStart finalEnd
      in take (nat (to - from)) (drop (nat from) s))"

text \<open>The preview rendered under the title of each notification of the list.\<close>

definition message_preview :: "string \<Rightarrow> string" where
  "message_preview message =
     (if int (length message) > 80 then substring message 0 80 @ ''...'' else message)"

section \<open>The monitor creation form (\<^verbatim>\<open>pages/Monitors.jsx\<close>)\<close>

text \<open>The result of \<^verbatim>\<open>parseInt\<close>: an integer or NaN.\<close>

datatype jsnumber = NaN | Num int

definition is_digit :: "char \<Rightarrow> bool" where
  "is_digit c = (48 \<le> (of_char c :: nat) \<and> (of_char c :: nat) \<le> 57)"

definition digit_value :: "char \<Rightarrow> nat" where
  "digit_value c = of_char c - 48"

definition digits_value :: "string \<Rightarrow> nat" where
  "digits_value ds = foldl (\<lambda>acc c. 10 * acc + digit_value c) 0 ds"

definition is_whitespace :: "char \<Rightarrow> bool" where
  "is_whitespace c = ((of_char c :: nat) \<in> {9, 10, 11, 12, 13, 32})"

definition is_hex_digit :: "char \<Rightarrow> bool" where
  "is_hex_digit c =
     (let n = (of_char c :: nat) in
      (48 \<le> n \<and> n \<le> 57) \<or> (97 \<le> n \<and> n \<le> 102) \<or> (65 \<le> n \<and> n \<le> 70))"

definition hex_digit_value :: "char \<Rightarrow> nat" where
  "hex_digit_value c =
     (let n = (of_char c :: nat) in
      if n \<le> 57 then n - 48 else if 97 \<le> n then n - 87 else n - 55)"

text \<open>
  \<^verbatim>\<open>parseInt(string)\<close> without radix: leading white space is skipped, a sign is read,
  a prefix \<^verbatim>\<open>0x\<close> selects base 16, and the longest run of digits is the value; no digit
  gives NaN. (The rounding of integers beyond \<open>2\<^sup>5\<^sup>3\<close> is left out.)
\<close>

definition parseInt :: "string \<Rightarrow> jsnumber" where
  "parseInt input =
     (let s = dropWhile is_whitespace input;
          negative = (take 1 s = ''-'');
          s1 = (if take 1 s = ''+'' \<or> take 1 s = ''-'' then drop 1 s else s);
          hex = (take 2 s1 = ''0x'' \<or> take 2 s1 = ''0X'');
          ds = (if hex then takeWhile is_hex_digit (drop 2 s1) else takeWhile is_digit s1);
          mag = (if hex then foldl (\<lambda>acc c. 16 * acc + hex_digit_value c) 0 ds
                 else digits_value ds)
      in if ds = [] then NaN
         else Num (if negative then - int mag else int mag))"

record form_data =
  name :: string
  url :: string
  monitor_type :: string
  css_selector :: string
  item_name :: string
  item_type :: string
  check_interval :: jsnumber
  notification_enabled :: bool

definition initial_formData :: form_data where
  "initial_formData =
     \<lparr>name = [], url = [], monitor_type = ''content'', css_selector = [], item_name = [],
      item_type = ''auto'', check_interval = Num 300, notification_enabled = True\<rparr>"

subsection \<open>Decimal numerals\<close>

text \<open>
  The number \<open>m \<times> 10\<^sup>e\<close>, negated when the flag is set: the exact value of a decimal
  numeral. (The rounding to a double is left out.)
\<close>

datatype decimal = Decimal bool nat int

definition signed :: "bool \<Rightarrow> nat \<Rightarrow> int" where
  "signed negative k = (if negative then - int k else int k)"

text \<open>The value of a decimal when it is an integer.\<close>

fun decimal_int :: "decimal \<Rightarrow> int option" where
  "decimal_int (Decimal negative m e) =
     (if 0 \<le> e then Some (signed negative (m * 10 ^ nat e))
      else if 10 ^ nat (- e) dvd m then Some (signed negative (m div 10 ^ nat (- e)))
      else None)"

fun decimal_eq :: "decimal \<Rightarrow> decimal \<Rightarrow> bool" where
  "decimal_eq (Decimal n1 m1 e1) (Decimal n2 m2 e2) =
     (signed n1 (m1 * 10 ^ nat (e1 - min e1 e2)) = signed n2 (m2 * 10 ^ nat (e2 - min e1 e2)))"

text \<open>
  A valid floating-point number in the sense of the HTML standard, which is what a
  number field holds: an optional minus sign; digits, or a point and digits, or both;
  and an optional exponent (\<^verbatim>\<open>e\<close> or \<^verbatim>\<open>E\<close>, an optional sign, digits). Any other text
  is no number. The three functions read the exponent, the fraction with what follows
  it, and the numeral after the sign.
\<close>

definition parse_exponent :: "string \<Rightarrow> int option" where
  "parse_exponent r =
     (if r = [] then Some 0
      else if take 1 r = ''e'' \<or> take 1 r = ''E'' then
        (let ds = (if take 1 (drop 1 r) = ''-'' \<or> take 1 (drop 1 r) = ''+''
                   then drop 2 r else drop 1 r)
         in if ds \<noteq> [] \<and> list_all is_digit ds
            then Some (signed (take 1 (drop 1 r) = ''-'') (digits_value ds))
            else None)
      else None)"

definition parse_fraction :: "string \<Rightarrow> (string \<times> string) option" where
  "parse_fraction r =
     (if take 1 r = ''.'' then
        (if takeWhile is_digit (drop 1 r) = [] then None
         else Some (takeWhile is_digit (drop 1 r), dropWhile is_digit (drop 1 r)))
      else Some ([], r))"

definition parse_unsigned :: "string \<Rightarrow> (nat \<times> int) option" where
  "parse_unsigned s =
     (case parse_fraction (dropWhile is_digit s) of
        None \<Rightarrow> None
      | Some (frac, r) \<Rightarrow>
          if takeWhile is_digit s = [] \<and> frac = [] then None
          else (case parse_exponent r of
                  None \<Rightarrow> None
                | Some e \<Rightarrow>
                    Some (digits_value (takeWhile is_digit s @ frac), e - int (length frac))))"

definition parse_float :: "string \<Rightarrow> decimal option" where
  "parse_float s =
     (if take 1 s = ''-''
      then map_option (\<lambda>(m, e). Decimal True m e) (parse_unsigned (drop 1 s))
      else map_option (\<lambda>(m, e). Decimal False m e) (parse_unsigned s))"

text \<open>\<^verbatim>\<open>String(n)\<close> for an integer \<open>n\<close>.\<close>

fun show_nat :: "nat \<Rightarrow> string" where
  "show_nat n =
     (if n < 10 then [''0123456789'' ! n]
      else show_nat (n div 10) @ [''0123456789'' ! (n mod 10)])"

declare show_nat.simps [simp del]

definition show_int :: "int \<Rightarrow> string" where
  "show_int i = (if i < 0 then ''-'' @ show_nat (nat (- i)) else show_nat (nat i))"

subsection \<open>The form and its fields\<close>

text \<open>
  The form: the component's \<^verbatim>\<open>formData\<close> and the part of the page that the browser
  validates. The name and url fields are controlled by strings of \<^verbatim>\<open>formData\<close> and
  always show them. The interval field is controlled by a number, so its text is kept
  apart. Whether the url field holds an absolute URL (\<^verbatim>\<open>validity.typeMismatch\<close> of an
  input of type url) is decided by the browser's URL parser, which is not modelled: its
  verdict is part of the state.
\<close>

record monitor_form =
  formData :: form_data
  interval_text :: string
  url_typeMismatch :: bool

definition initial_form :: monitor_form where
  "initial_form =
     \<lparr>formData = initial_formData, interval_text = ''300'', url_typeMismatch = False\<rparr>"

text \<open>The \<^verbatim>\<open>onChange\<close> handlers of the name and url fields.\<close>

definition onChange_name :: "string \<Rightarrow> monitor_form \<Rightarrow> monitor_form" where
  "onChange_name v f = f\<lparr>formData := (formData f)\<lparr>name := v\<rparr>\<rparr>"

definition onChange_url :: "string \<Rightarrow> bool \<Rightarrow> monitor_form \<Rightarrow> monitor_form" where
  "onChange_url v mismatch f =
     f\<lparr>formData := (formData f)\<lparr>url := v\<rparr>, url_typeMismatch := mismatch\<rparr>"

text \<open>
  The value sanitization of a number field: a text that is no valid floating-point
  number is replaced by the empty text.
\<close>

definition sanitize_number :: "string \<Rightarrow> string" where
  "sanitize_number v = (case parse_float v of None \<Rightarrow> [] | Some d \<Rightarrow> v)"

text \<open>
  \<^verbatim>\<open>node.value != value\<close> negated, for the field's text and a number of the state: the
  text converted to a number equals \<open>n\<close>. The empty text converts to 0.
\<close>

definition text_equals_number :: "string \<Rightarrow> int \<Rightarrow> bool" where
  "text_equals_number node_value n =
     (if node_value = [] then n = 0
      else (case parse_float node_value of
              None \<Rightarrow> False
            | Some d \<Rightarrow> decimal_int d = Some n))"

text \<open>
  How React renders \<^verbatim>\<open>value={formData.check_interval}\<close> into the number field whose
  text is \<open>node_value\<close>: it assigns \<^verbatim>\<open>String(value)\<close> when the value is 0 and the field
  empty, or when the text does not convert to the value, and leaves the text alone
  otherwise. NaN equals nothing, so the text \<^verbatim>\<open>NaN\<close> is assigned, which the field's
  sanitization turns into the empty text.
\<close>

fun render_number_value :: "jsnumber \<Rightarrow> string \<Rightarrow> string" where
  "render_number_value NaN node_value = sanitize_number ''NaN''"
| "render_number_value (Num n) node_value =
     (if n = 0 \<and> node_value = [] then sanitize_number (show_int n)
      else if text_equals_number node_value n then node_value
      else sanitize_number (show_int n))"

text \<open>
  An edit of the interval field that leaves the text \<open>raw\<close> in it: the browser reports
  the sanitized text as \<^verbatim>\<open>e.target.value\<close>, the \<^verbatim>\<open>onChange\<close> handler stores
  \<^verbatim>\<open>parseInt(e.target.value)\<close> in \<^verbatim>\<open>formData.check_interval\<close>, and React renders the
  new state into the field.
\<close>

definition onChange_check_interval :: "string \<Rightarrow> monitor_form \<Rightarrow> monitor_form" where
  "onChange_check_interval raw f =
     (let target_value = sanitize_number raw;
          fd = (formData f)\<lparr>check_interval := parseInt target_value\<rparr>
      in f\<lparr>formData := fd,
           interval_text := render_number_value (check_interval fd) target_value\<rparr>)"

text \<open>
  The browser's check of \<^verbatim>\<open><input type="number" min="60" max="86400">\<close>. The field
  carries no \<^verbatim>\<open>required\<close> attribute, so the empty text passes. Any other text must be
  a number from 60 to 86400 that lies a whole number of steps above the minimum; the
  step is 1, no \<^verbatim>\<open>step\<close> attribute being given, so the number must be an integer.
\<close>

definition interval_text_valid :: "string \<Rightarrow> bool" where
  "interval_text_valid v =
     (if v = [] then True
      else (case parse_float v of
              None \<Rightarrow> False
            | Some d \<Rightarrow>
                (case decimal_int d of
                   None \<Rightarrow> False
                 | Some k \<Rightarrow> 60 \<le> k \<and> k \<le> 86400)))"

text \<open>
  The browser's validation of the form before it fires the submit event. The name and
  url fields are \<^verbatim>\<open>required\<close>, and the url field is of type url; the item name field
  is \<^verbatim>\<open>required\<close> and rendered only for the monitor type \<^verbatim>\<open>item_search\<close>; the other
  controls carry no constraint.
\<close>

definition form_valid :: "monitor_form \<Rightarrow> bool" where
  "form_valid f =
     (name (formData f) \<noteq> []
      \<and> url (formData f) \<noteq> []
      \<and> url_typeMismatch f = False
      \<and> (if monitor_type (formData f) = ''item_search'' then item_name (formData f) \<noteq> []
          else True)
      \<and> interval_text_valid (interval_text f))"

text \<open>
  \<^verbatim>\<open>apiService.createMonitor(monitorData)\<close>: a POST to \<^verbatim>\<open>/monitors\<close> whose body is
  the serialized \<open>monitorData\<close>.
\<close>

record api_request =
  endpoint :: string
  http_method :: string
  body :: form_data

definition createMonitor :: "form_data \<Rightarrow> api_request" where
  "createMonitor monitorData =
     \<lparr>endpoint = ''/monitors'', http_method = ''POST'', body = monitorData\<rparr>"

text \<open>
  \<^verbatim>\<open>handleCreateMonitor\<close>: the request it issues, and the form after a successful
  response (reset to the initial values).
\<close>

definition handleCreateMonitor :: "monitor_form \<Rightarrow> api_request \<times> monitor_form" where
  "handleCreateMonitor f = (createMonitor (formData f), initial_form)"

text \<open>
  A click on the submit button: the handler runs only when the browser's validation
  lets the submit event through.
\<close>

definition submit :: "monitor_form \<Rightarrow> (api_request \<times> monitor_form) option" where
  "submit f = (if form_valid f then Some (handleCreateMonitor f) else None)"

text \<open>The form with a name and a url typed in.\<close>

definition filled_form :: monitor_form where
  "filled_form =
     onChange_url ''https://example.com/'' False (onChange_name ''Price watch'' initial_form)"

section \<open>The Change Detector\<close>

text \<open>
  The change detector belongs to the backend, of which the repository's sources hold
  the documentation only; its definitions follow section 4.4 of the specification.
\<close>

text \<open>Modelled from the spec: the extraction strategies of a monitor (backend code).\<close>

datatype strategy = Content | Price | Selector | ItemSearch

text \<open>
  Modelled from the spec: the result of \<^verbatim>\<open>detect\<close> (backend code),
  \<^verbatim>\<open>Unchanged | Changed{old, new, diffSummary}\<close>.
\<close>

datatype change_result = Unchanged | Changed string string string

text \<open>
  Modelled from the spec: the white space that surrounds an observed value (backend
  code) is formatting.
\<close>

definition trim :: "string \<Rightarrow> string" where
  "trim s = rev (dropWhile is_whitespace (rev (dropWhile is_whitespace s)))"

text \<open>
  Modelled from the spec: the currency symbols of a price (backend code), "currency
  formatting": the dollar, euro, pound and yen signs, the last three as their UTF-8
  bytes.
\<close>

definition currency_symbols :: "string list" where
  "currency_symbols =
     [''$'', [CHR 0xE2, CHR 0x82, CHR 0xAC], [CHR 0xC2, CHR 0xA3], [CHR 0xC2, CHR 0xA5]]"

text \<open>
  Modelled from the spec: removal of one leading currency symbol (backend code).
\<close>

fun strip_currency :: "string list \<Rightarrow> string \<Rightarrow> string" where
  "strip_currency [] s = s"
| "strip_currency (c # cs) s =
     (if take (length c) s = c then drop (length c) s else strip_currency cs s)"

text \<open>
  Modelled from the spec: the groups of digits between grouping separators (backend
  code), "grouping formatting".
\<close>

fun split_on :: "char \<Rightarrow> string \<Rightarrow> string list" where
  "split_on c [] = [[]]"
| "split_on c (x # xs) =
     (if x = c then [] # split_on c xs
      else (case split_on c xs of
              [] \<Rightarrow> [[x]]
            | g # gs \<Rightarrow> (x # g) # gs))"

text \<open>
  Modelled from the spec: a well-grouped integer part (backend code): digits without a
  separator, or one to three digits followed by groups of exactly three digits, with
  commas between the groups.
\<close>

definition well_grouped :: "string \<Rightarrow> bool" where
  "well_grouped t =
     (case split_on CHR '','' t of
        [] \<Rightarrow> False
      | g # gs \<Rightarrow>
          g \<noteq> [] \<and> list_all is_digit g \<and> (gs = [] \<or> length g \<le> 3)
          \<and> list_all (\<lambda>h. length h = 3 \<and> list_all is_digit h) gs)"

text \<open>
  Modelled from the spec: the numeral of an unsigned price text once its formatting is
  removed (backend code), "treat formatting differences as equal". The formatting is one
  currency symbol and white space before the digits, and the grouping separators of a
  well-grouped integer part. Whatever follows the integer part is left as it is, so a
  text with anything besides a fraction and an exponent there does not read as a number
  below.
\<close>

definition is_grouping :: "char \<Rightarrow> bool" where
  "is_grouping c = (is_digit c \<or> c = CHR '','')"

definition unformat_unsigned :: "string \<Rightarrow> string option" where
  "unformat_unsigned t =
     (let u = dropWhile is_whitespace (strip_currency currency_symbols t) in
      if well_grouped (takeWhile is_grouping u)
      then Some (filter is_digit (takeWhile is_grouping u) @ dropWhile is_grouping u)
      else None)"

text \<open>
  Modelled from the spec: the numeral of a price text once its formatting is removed
  (backend code): the white space around the text is formatting too, and a minus sign in
  front is kept.
\<close>

definition strip_formatting :: "string \<Rightarrow> string option" where
  "strip_formatting s =
     (if take 1 (trim s) = ''-''
      then map_option (\<lambda>u. ''-'' @ u) (unformat_unsigned (drop 1 (trim s)))
      else unformat_unsigned (trim s))"

text \<open>
  Modelled from the spec: the number parser of the change detector (backend code),
  "parse both as numbers": the decimal numeral that remains after the formatting is
  removed, with its exact value. A text that is not a number gives \<open>None\<close>.
\<close>

definition parse_number :: "string \<Rightarrow> decimal option" where
  "parse_number s =
     (case strip_formatting s of None \<Rightarrow> None | Some t \<Rightarrow> parse_float t)"

text \<open>
  Modelled from the spec: numeric equality of two parsed prices (backend code),
  "equality is numeric".
\<close>

definition numeric_eq :: "decimal \<Rightarrow> decimal \<Rightarrow> bool" where
  "numeric_eq a b = decimal_eq a b"

text \<open>
  Modelled from the spec: the equality rule of the change detector (backend code),
  "exact string equality after normalization, except for price, where equality is
  numeric". Under price, values of which one does not parse as a number are compared
  as strings.
\<close>

definition values_equal :: "strategy \<Rightarrow> string \<Rightarrow> string \<Rightarrow> bool" where
  "values_equal strat old new =
     (if strat = Price then
        (case (parse_number old, parse_number new) of
           (Some a, Some b) \<Rightarrow> numeric_eq a b
         | _ \<Rightarrow> old = new)
      else old = new)"

text \<open>
  Modelled from the spec: the diff summary (backend code), "a short human-readable
  string (e.g., old to new) capped in length"; the cap is a parameter.
\<close>

definition diffSummary :: "nat \<Rightarrow> string \<Rightarrow> string \<Rightarrow> string" where
  "diffSummary cap old new = take cap (old @ '' -> '' @ new)"

text \<open>
  Modelled from the spec: \<^verbatim>\<open>detect(monitor, observedValue)\<close> (backend code). Of the
  monitor it reads the strategy and the stored \<^verbatim>\<open>current_value\<close>; a first observation
  is the baseline and no change.
\<close>

definition detect :: "nat \<Rightarrow> strategy \<Rightarrow> string option \<Rightarrow> string \<Rightarrow> change_result" where
  "detect cap strat current_value observed =
     (case current_value of
        None \<Rightarrow> Unchanged
      | Some old \<Rightarrow>
          if values_equal strat old observed then Unchanged
          else Changed old observed (diffSummary cap old observed))"

section \<open>Properties\<close>

subsection \<open>Auxiliary facts\<close>

lemma spread_apply: "spread m u f = (case u f of Some v \<Rightarrow> Some v | None \<Rightarrow> m f)"
  by (simp add: spread_def map_add_def split: option.splits)

lemma map_update_no_match:
  "(\<forall>m \<in> set xs. \<not> strict_eq (get_prop m ''id'') i) \<Longrightarrow>
     map (\<lambda>monitor. if strict_eq (get_prop monitor ''id'') i
                     then spread monitor u else monitor) xs = xs"
  by (induction xs) auto

lemmas ex_defs = ex_state_def ex_monitors_def ex_notifications_def initial_state_def
  initial_slice_def initial_pagination_def

lemmas hook_defs = initial_hook_def connect_def onopen_def onclose_def onerror_def
  disconnect_def socket_close_def setTimeout_def clearTimeout_def clear_reconnect_timeout_def
  new_socket_def

lemmas num_defs = is_digit_def digits_value_def digit_value_def is_whitespace_def signed_def

lemmas float_defs = parse_float_def parse_unsigned_def parse_fraction_def parse_exponent_def

lemmas price_defs = parse_number_def strip_formatting_def unformat_unsigned_def trim_def
  currency_symbols_def well_grouped_def is_grouping_def

lemmas form_defs = submit_def form_valid_def handleCreateMonitor_def createMonitor_def
  onChange_check_interval_def onChange_name_def onChange_url_def filled_form_def
  initial_form_def initial_formData_def interval_text_valid_def sanitize_number_def
  text_equals_number_def

lemma is_digit_not_whitespace: "is_digit c \<Longrightarrow> \<not> is_whitespace c"
  by (auto simp: is_digit_def is_whitespace_def)

subsection \<open>Real-time monitor updates\<close>

text \<open>
  Claim C1. A message of type \<^verbatim>\<open>monitor_update\<close> changes the monitors whose id equals
  the payload's \<^verbatim>\<open>monitor_id\<close> and no other: in such a monitor \<^verbatim>\<open>current_value\<close>
  and \<^verbatim>\<open>last_checked\<close> become the payload's values, \<^verbatim>\<open>last_changed\<close> becomes the
  payload's \<^verbatim>\<open>last_checked\<close> when the payload's \<^verbatim>\<open>has_changed\<close> is truthy and keeps
  its binding when it is not, and every other field stays. The length and order of the
  list, its pagination and the other collections stay as they are.
\<close>

theorem monitor_update_applied:
  assumes "msg_type message = ''monitor_update''"
  shows "length (monitor_items (handleMessage message s)) = length (monitor_items s)
   \<and> (\<forall>k < length (monitor_items s).
        (strict_eq (get_prop (monitor_items s ! k) ''id'')
                   (get_prop (msg_data message) ''monitor_id'') \<longrightarrow>
           get_prop (monitor_items (handleMessage message s) ! k) ''current_value''
             = get_prop (msg_data message) ''current_value''
         \<and> get_prop (monitor_items (handleMessage message s) ! k) ''last_checked''
             = get_prop (msg_data message) ''last_checked''
         \<and> (truthy (get_prop (msg_data message) ''has_changed'') \<longrightarrow>
              get_prop (monitor_items (handleMessage message s) ! k) ''last_changed''
                = get_prop (msg_data message) ''last_checked'')
         \<and> (\<not> truthy (get_prop (msg_data message) ''has_changed'') \<longrightarrow>
              (monitor_items (handleMessage message s) ! k) ''last_changed''
                = (monitor_items s ! k) ''last_changed'')
         \<and> (\<forall>f. f \<noteq> ''current_value'' \<and> f \<noteq> ''last_checked'' \<and> f \<noteq> ''last_changed'' \<longrightarrow>
              (monitor_items (handleMessage message s) ! k) f = (monitor_items s ! k) f))
        \<and> (\<not> strict_eq (get_prop (monitor_items s ! k) ''id'')
                       (get_prop (msg_data message) ''monitor_id'') \<longrightarrow>
             monitor_items (handleMessage message s) ! k = monitor_items s ! k))
   \<and> pagination (monitors (handleMessage message s)) = pagination (monitors s)
   \<and> summaries (handleMessage message s) = summaries s
   \<and> notifications (handleMessage message s) = notifications s"
  using assms
  by (auto simp: handleMessage_def updateMonitor_def monitor_update_fields_def spread_apply
      get_prop_def)

text \<open>
  The store of two monitors receives an update of monitor \<open>m2\<close> that reports a change,
  and one that reports none.
\<close>

theorem monitor_update_applied_witness:
  "msg_type ex_update_changed = ''monitor_update''
   \<and> msg_type ex_update_same = ''monitor_update''
   \<and> (1::nat) < length (monitor_items ex_state)
   \<and> strict_eq (get_prop (monitor_items ex_state ! 1) ''id'')
                (get_prop (msg_data ex_update_changed) ''monitor_id'')
   \<and> \<not> strict_eq (get_prop (monitor_items ex_state ! 0) ''id'')
                  (get_prop (msg_data ex_update_changed) ''monitor_id'')
   \<and> truthy (get_prop (msg_data ex_update_changed) ''has_changed'')
   \<and> \<not> truthy (get_prop (msg_data ex_update_same) ''has_changed'')
   \<and> get_prop (monitor_items (handleMessage ex_update_changed ex_state) ! 1) ''current_value''
       = JStr ''42''
   \<and> get_prop (monitor_items (handleMessage ex_update_changed ex_state) ! 1) ''last_checked''
       = JStr ''t5''
   \<and> get_prop (monitor_items (handleMessage ex_update_changed ex_state) ! 1) ''last_changed''
       = JStr ''t5''
   \<and> get_prop (monitor_items (handleMessage ex_update_changed ex_state) ! 1) ''name''
       = JStr ''News page''
   \<and> get_prop (monitor_items (handleMessage ex_update_same ex_state) ! 1) ''last_checked''
       = JStr ''t6''
   \<and> get_prop (monitor_items (handleMessage ex_update_same ex_state) ! 1) ''last_changed''
       = JStr ''t0''
   \<and> monitor_items (handleMessage ex_update_changed ex_state) ! 0 = monitor_items ex_state ! 0"
  using monitor_update_applied [of ex_update_changed ex_state]
    monitor_update_applied [of ex_update_same ex_state]
  by (simp add: ex_update_changed_def ex_update_same_def ex_defs strict_eq_def get_prop_def)

subsection \<open>Marking notifications as read\<close>

text \<open>
  Claim C2. \<^verbatim>\<open>markNotificationRead(id)\<close> keeps the length and order of the list; in a
  notification whose id matches it sets \<^verbatim>\<open>is_read\<close> to true and \<^verbatim>\<open>read_at\<close> to the
  clock's reading and leaves every other field; a notification with another id, the
  pagination and the rest of the store are unchanged.
\<close>

theorem markNotificationRead_frame:
  "length (notification_items (markNotificationRead now i s)) = length (notification_items s)
   \<and> (\<forall>k < length (notification_items s).
        (strict_eq (get_prop (notification_items s ! k) ''id'') i \<longrightarrow>
           (notification_items (markNotificationRead now i s) ! k) ''is_read'' = Some (JBool True)
         \<and> (notification_items (markNotificationRead now i s) ! k) ''read_at''
             = Some (JStr (now k))
         \<and> (\<forall>f. f \<noteq> ''is_read'' \<and> f \<noteq> ''read_at'' \<longrightarrow>
              (notification_items (markNotificationRead now i s) ! k) f
                = (notification_items s ! k) f))
        \<and> (\<not> strict_eq (get_prop (notification_items s ! k) ''id'') i \<longrightarrow>
             notification_items (markNotificationRead now i s) ! k = notification_items s ! k))
   \<and> pagination (notifications (markNotificationRead now i s)) = pagination (notifications s)
   \<and> loading (notifications (markNotificationRead now i s)) = loading (notifications s)
   \<and> error (notifications (markNotificationRead now i s)) = error (notifications s)
   \<and> summaries (markNotificationRead now i s) = summaries s
   \<and> monitors (markNotificationRead now i s) = monitors s
   \<and> ui (markNotificationRead now i s) = ui s
   \<and> currentSummary (markNotificationRead now i s) = currentSummary s
   \<and> stats (markNotificationRead now i s) = stats s"
  by (simp add: markNotificationRead_def nth_enumerate_eq)

text \<open>Marking notification \<open>n2\<close> of the two as read.\<close>

theorem markNotificationRead_frame_witness:
  "(1::nat) < length (notification_items ex_state)
   \<and> strict_eq (get_prop (notification_items ex_state ! 1) ''id'') (JStr ''n2'')
   \<and> \<not> strict_eq (get_prop (notification_items ex_state ! 0) ''id'') (JStr ''n2'')
   \<and> (notification_items (markNotificationRead (\<lambda>_. ''t9'') (JStr ''n2'') ex_state) ! 1)
        ''is_read'' = Some (JBool True)
   \<and> (notification_items (markNotificationRead (\<lambda>_. ''t9'') (JStr ''n2'') ex_state) ! 1)
        ''read_at'' = Some (JStr ''t9'')
   \<and> (notification_items (markNotificationRead (\<lambda>_. ''t9'') (JStr ''n2'') ex_state) ! 1)
        ''message'' = Some (JStr ''hello'')
   \<and> notification_items (markNotificationRead (\<lambda>_. ''t9'') (JStr ''n2'') ex_state) ! 0
       = notification_items ex_state ! 0"
  using markNotificationRead_frame [of "\<lambda>_. ''t9''" "JStr ''n2''" ex_state]
  by (simp add: ex_defs strict_eq_def get_prop_def)

text \<open>
  Claim C6. After \<^verbatim>\<open>markAllNotificationsRead()\<close> every notification has \<^verbatim>\<open>is_read\<close>
  true and \<^verbatim>\<open>read_at\<close> a timestamp string, hence not null; the number of
  notifications, their order, their ids and every field other than these two are
  unchanged; and after a second application every notification is read again.
\<close>

theorem markAllNotificationsRead_all_read:
  "length (notification_items (markAllNotificationsRead now s)) = length (notification_items s)
   \<and> (\<forall>k < length (notification_items s).
         get_prop (notification_items (markAllNotificationsRead now s) ! k) ''is_read''
           = JBool True
       \<and> get_prop (notification_items (markAllNotificationsRead now s) ! k) ''read_at''
           = JStr (now k)
       \<and> get_prop (notification_items (markAllNotificationsRead now s) ! k) ''read_at'' \<noteq> JNull
       \<and> get_prop (notification_items (markAllNotificationsRead now s) ! k) ''id''
           = get_prop (notification_items s ! k) ''id''
       \<and> (\<forall>f. f \<noteq> ''is_read'' \<and> f \<noteq> ''read_at'' \<longrightarrow>
              (notification_items (markAllNotificationsRead now s) ! k) f
                = (notification_items s ! k) f)
       \<and> get_prop (notification_items
             (markAllNotificationsRead now' (markAllNotificationsRead now s)) ! k) ''is_read''
           = JBool True
       \<and> get_prop (notification_items
             (markAllNotificationsRead now' (markAllNotificationsRead now s)) ! k) ''read_at''
           = JStr (now' k))
   \<and> length (notification_items (markAllNotificationsRead now' (markAllNotificationsRead now s)))
       = length (notification_items s)
   \<and> pagination (notifications (markAllNotificationsRead now s)) = pagination (notifications s)"
  by (simp add: markAllNotificationsRead_def nth_enumerate_eq get_prop_def)

text \<open>Marking the two notifications as read, once and twice.\<close>

theorem markAllNotificationsRead_all_read_witness:
  "(1::nat) < length (notification_items ex_state)
   \<and> get_prop (notification_items (markAllNotificationsRead (\<lambda>k. ''t9'') ex_state) ! 1)
        ''is_read'' = JBool True
   \<and> get_prop (notification_items (markAllNotificationsRead (\<lambda>k. ''t9'') ex_state) ! 1)
        ''read_at'' = JStr ''t9''
   \<and> get_prop (notification_items (markAllNotificationsRead (\<lambda>k. ''t9'') ex_state) ! 1)
        ''title'' = JStr ''Welcome''
   \<and> get_prop (notification_items (markAllNotificationsRead (\<lambda>k. ''t9'') ex_state) ! 1)
        ''id'' = JStr ''n2''
   \<and> get_prop (notification_items
        (markAllNotificationsRead (\<lambda>k. ''t10'') (markAllNotificationsRead (\<lambda>k. ''t9'') ex_state)) ! 1)
        ''is_read'' = JBool True"
  using markAllNotificationsRead_all_read [of "\<lambda>k. ''t9''" ex_state "\<lambda>k. ''t10''"]
  by (simp add: ex_defs get_prop_def)

subsection \<open>Updating a monitor\<close>

text \<open>
  Claim C9. \<^verbatim>\<open>updateMonitor(id, updates)\<close> keeps the length and order of the list; a
  monitor whose id matches becomes the merge of the updates over its fields; every other
  monitor, the pagination and the rest of the store are unchanged; and when no monitor
  has the id, the store is unchanged altogether.
\<close>

theorem updateMonitor_frame:
  "length (monitor_items (updateMonitor i u s)) = length (monitor_items s)
   \<and> (\<forall>k < length (monitor_items s).
        (strict_eq (get_prop (monitor_items s ! k) ''id'') i \<longrightarrow>
           (\<forall>f. (monitor_items (updateMonitor i u s) ! k) f =
                 (case u f of Some v \<Rightarrow> Some v | None \<Rightarrow> (monitor_items s ! k) f)))
        \<and> (\<not> strict_eq (get_prop (monitor_items s ! k) ''id'') i \<longrightarrow>
             monitor_items (updateMonitor i u s) ! k = monitor_items s ! k))
   \<and> pagination (monitors (updateMonitor i u s)) = pagination (monitors s)
   \<and> loading (monitors (updateMonitor i u s)) = loading (monitors s)
   \<and> error (monitors (updateMonitor i u s)) = error (monitors s)
   \<and> summaries (updateMonitor i u s) = summaries s
   \<and> notifications (updateMonitor i u s) = notifications s
   \<and> ui (updateMonitor i u s) = ui s
   \<and> currentSummary (updateMonitor i u s) = currentSummary s
   \<and> stats (updateMonitor i u s) = stats s
   \<and> ((\<forall>m \<in> set (monitor_items s). \<not> strict_eq (get_prop m ''id'') i) \<longrightarrow>
         updateMonitor i u s = s)"
  by (auto simp: updateMonitor_def spread_apply map_update_no_match)

text \<open>Updating monitor \<open>m2\<close> of the two, and updating an id that is not stored.\<close>

theorem updateMonitor_frame_witness:
  "(1::nat) < length (monitor_items ex_state)
   \<and> strict_eq (get_prop (monitor_items ex_state ! 1) ''id'') (JStr ''m2'')
   \<and> \<not> strict_eq (get_prop (monitor_items ex_state ! 0) ''id'') (JStr ''m2'')
   \<and> (monitor_items (updateMonitor (JStr ''m2'') [''current_value'' \<mapsto> JStr ''9''] ex_state) ! 1)
         ''current_value'' = Some (JStr ''9'')
   \<and> (monitor_items (updateMonitor (JStr ''m2'') [''current_value'' \<mapsto> JStr ''9''] ex_state) ! 1)
         ''last_changed'' = Some (JStr ''t0'')
   \<and> monitor_items (updateMonitor (JStr ''m2'') [''current_value'' \<mapsto> JStr ''9''] ex_state) ! 0
       = monitor_items ex_state ! 0
   \<and> list_all (\<lambda>m. \<not> strict_eq (get_prop m ''id'') (JStr ''m3'')) (monitor_items ex_state)
   \<and> updateMonitor (JStr ''m3'') [''current_value'' \<mapsto> JStr ''9''] ex_state = ex_state"
  using updateMonitor_frame [of "JStr ''m2''" "[''current_value'' \<mapsto> JStr ''9'']" ex_state]
    updateMonitor_frame [of "JStr ''m3''" "[''current_value'' \<mapsto> JStr ''9'']" ex_state]
  by (simp add: ex_defs strict_eq_def get_prop_def)

subsection \<open>Pagination totals\<close>

lemma apply_op_totals_nonneg: "totals_nonneg s \<Longrightarrow> totals_nonneg (apply_op x s)"
  by (cases x)
     (simp_all add: totals_nonneg_def addSummary_def removeSummary_def addMonitor_def
        removeMonitor_def addNotification_def removeNotification_def)

lemma run_ops_totals_nonneg: "totals_nonneg s \<Longrightarrow> totals_nonneg (run_ops xs s)"
  by (induction xs arbitrary: s) (simp_all add: apply_op_totals_nonneg)

text \<open>
  Claim C10. Starting from totals that are not negative, every sequence of add and
  remove actions on summaries, monitors and notifications leaves the three totals not
  negative; and a remove action on a total of 0 leaves it at 0.
\<close>

theorem totals_never_negative:
  "(totals_nonneg s \<longrightarrow> totals_nonneg (run_ops xs s))
   \<and> (total (pagination (summaries s)) = 0 \<longrightarrow>
        total (pagination (summaries (removeSummary i s))) = 0)
   \<and> (total (pagination (monitors s)) = 0 \<longrightarrow>
        total (pagination (monitors (removeMonitor i s))) = 0)
   \<and> (total (pagination (notifications s)) = 0 \<longrightarrow>
        total (pagination (notifications (removeNotification i s))) = 0)"
  by (simp add: run_ops_totals_nonneg removeSummary_def removeMonitor_def removeNotification_def)

text \<open>
  A sequence on the initial store that removes from an empty collection, and the
  remove actions on totals of 0.
\<close>

theorem totals_never_negative_witness:
  "totals_nonneg initial_state
   \<and> totals_nonneg (run_ops [RemoveMonitor (JStr ''m1''), AddMonitor Map.empty,
                             RemoveMonitor (JStr ''m1''), RemoveMonitor (JStr ''m1''),
                             RemoveSummary (JStr ''s1''), AddNotification Map.empty]
                       initial_state)
   \<and> total (pagination (monitors initial_state)) = 0
   \<and> total (pagination (monitors (removeMonitor (JStr ''m1'') initial_state))) = 0
   \<and> total (pagination (summaries initial_state)) = 0
   \<and> total (pagination (summaries (removeSummary (JStr ''m1'') initial_state))) = 0
   \<and> total (pagination (notifications initial_state)) = 0
   \<and> total (pagination (notifications (removeNotification (JStr ''m1'') initial_state))) = 0"
  using totals_never_negative [of initial_state
      "[RemoveMonitor (JStr ''m1''), AddMonitor Map.empty,
        RemoveMonitor (JStr ''m1''), RemoveMonitor (JStr ''m1''),
        RemoveSummary (JStr ''s1''), AddNotification Map.empty]" "JStr ''m1''"]
  by (simp add: totals_nonneg_def initial_state_def initial_slice_def initial_pagination_def)

subsection \<open>Sending on the socket\<close>

text \<open>
  Claim C5. For every message and every state of the hook, \<^verbatim>\<open>sendMessage\<close> on an absent
  socket or one that is not open returns without an error and changes nothing but the
  console, where it writes its warning: no frame is handed to any socket and nothing is
  kept for later. On an open socket the serialized message is handed to that socket.
  Whenever a call changes the sockets, the socket was open.
\<close>

theorem sendMessage_only_when_open:
  "(\<not> socket_open h \<longrightarrow>
      sendMessage stringify message h
        = Inr (h\<lparr>console := console h @ [''WebSocket is not connected'']\<rparr>))
   \<and> (socket_open h \<longrightarrow> (\<forall>frame. stringify message = Some frame \<longrightarrow>
        (\<exists>i. wsRef h = Some i \<and>
          sendMessage stringify message h
            = Inr (h\<lparr>sockets := (sockets h)
                     (i := (sockets h i)\<lparr>sent := sent (sockets h i) @ [frame]\<rparr>)\<rparr>))))
   \<and> (\<forall>h'. sendMessage stringify message h = Inr h' \<and> sockets h' \<noteq> sockets h \<longrightarrow>
         socket_open h)"
  by (auto simp: sendMessage_def socket_open_def split: option.splits)

text \<open>Sending before any connection exists, and on the open connection.\<close>

theorem sendMessage_only_when_open_witness:
  "\<not> socket_open initial_hook
   \<and> sendMessage Some ''ping'' initial_hook
       = Inr (initial_hook\<lparr>console := [''WebSocket is not connected'']\<rparr>)
   \<and> socket_open connected_hook
   \<and> sendMessage Some ''ping'' connected_hook
       = Inr (connected_hook\<lparr>sockets := (sockets connected_hook)
                (0 := \<lparr>readyState = OPEN, sent = [''ping'']\<rparr>)\<rparr>)"
  using sendMessage_only_when_open [of initial_hook Some "''ping''"]
    sendMessage_only_when_open [of connected_hook Some "''ping''"]
  by (simp add: socket_open_def initial_hook_def connected_hook_def)

subsection \<open>Reconnection\<close>

text \<open>
  What each handler does to the timeouts: \<^verbatim>\<open>onclose\<close> schedules exactly one, of 3000 ms,
  and records it in the ref; \<^verbatim>\<open>onopen\<close> and \<^verbatim>\<open>disconnect\<close> clear the one the ref
  holds.
\<close>

lemma onclose_schedules_one_timeout:
  "timers (onclose h) = timers h @ [(next_timer h, 3000)]
   \<and> reconnectTimeoutRef (onclose h) = Some (next_timer h)
   \<and> sockets (onclose h) = sockets h \<and> socket_count (onclose h) = socket_count h"
  by (simp add: onclose_def setTimeout_def)

lemma onopen_clears_tracked_timeout:
  assumes "reconnectTimeoutRef h = Some t" and "t \<noteq> 0"
  shows "reconnectTimeoutRef (onopen h) = None \<and> t \<notin> fst ` set (timers (onopen h))"
  using assms by (auto simp: onopen_def clear_reconnect_timeout_def clearTimeout_def)

lemma disconnect_clears_tracked_timeout:
  assumes "reconnectTimeoutRef h = Some t" and "t \<noteq> 0"
  shows "reconnectTimeoutRef (disconnect h) = None \<and> t \<notin> fst ` set (timers (disconnect h))
         \<and> wsRef (disconnect h) = None"
  using assms
  by (auto simp: disconnect_def clear_reconnect_timeout_def clearTimeout_def socket_close_def
      Let_def split: option.splits)

text \<open>
  Claim C4. The close of a socket schedules one timeout of 3000 ms for \<^verbatim>\<open>connect\<close>, and
  \<^verbatim>\<open>disconnect\<close> clears the timeout that \<^verbatim>\<open>reconnectTimeoutRef\<close> holds. Further
  attempts still fire after \<^verbatim>\<open>disconnect\<close>. On an open connection \<^verbatim>\<open>disconnect\<close>
  leaves no timeout pending and starts closing the socket, whose \<^verbatim>\<open>onclose\<close> handler
  is still attached: the close event schedules a timeout, and its expiry constructs a
  second socket. With two sockets that have both closed, two timeouts are pending and
  the ref holds the later one: \<^verbatim>\<open>disconnect\<close> clears that one, and the expiry of
  the other constructs a third socket.
\<close>

theorem reconnect_after_disconnect:
  "run [Connect, Opened 0] initial_hook = Some connected_hook
   \<and> map_option (\<lambda>h. (timers h, reconnectTimeoutRef h, wsRef h, socket_count h,
                      readyState (sockets h 0)))
        (run [Connect, Opened 0, Disconnect] initial_hook)
       = Some ([], None, None, 1, CLOSING)
   \<and> map_option (\<lambda>h. (timers h, reconnectTimeoutRef h, wsRef h, socket_count h))
        (run [Connect, Opened 0, Disconnect, Closed 0] initial_hook)
       = Some ([(1, 3000)], Some 1, None, 1)
   \<and> map_option (\<lambda>h. (timers h, wsRef h, socket_count h, connectionStatus h,
                      readyState (sockets h 1)))
        (run [Connect, Opened 0, Disconnect, Closed 0, Expired 1] initial_hook)
       = Some ([], Some 1, 2, ''connecting'', CONNECTING)
   \<and> map_option (\<lambda>h. (timers h, reconnectTimeoutRef h, wsRef h, socket_count h))
        (run [Connect, Connect, Closed 0, Closed 1] initial_hook)
       = Some ([(1, 3000), (2, 3000)], Some 2, Some 1, 2)
   \<and> map_option (\<lambda>h. (timers h, reconnectTimeoutRef h, wsRef h, socket_count h))
        (run [Connect, Connect, Closed 0, Closed 1, Disconnect] initial_hook)
       = Some ([(1, 3000)], None, None, 2)
   \<and> map_option (\<lambda>h. (timers h, wsRef h, socket_count h, connectionStatus h))
        (run [Connect, Connect, Closed 0, Closed 1, Disconnect, Expired 1] initial_hook)
       = Some ([], Some 2, 3, ''connecting'')"
  by (simp add: hook_defs connected_hook_def)

subsection \<open>The message preview\<close>

text \<open>
  Claim C8. The preview of a message longer than 80 characters is its first 80
  characters followed by three dots; the preview of any other message is the message;
  so no preview is longer than 83 characters.
\<close>

theorem message_preview_capped:
  "(80 < length message \<longrightarrow> message_preview message = take 80 message @ ''...'')
   \<and> (length message \<le> 80 \<longrightarrow> message_preview message = message)
   \<and> length (message_preview message) \<le> 83"
  by (auto simp: message_preview_def substring_def Let_def)

text \<open>A message of 81 characters, and a short one.\<close>

theorem message_preview_capped_witness:
  "80 < length (replicate 81 CHR ''a'')
   \<and> message_preview (replicate 81 CHR ''a'') = replicate 80 CHR ''a'' @ ''...''
   \<and> length ''Price changed'' \<le> 80
   \<and> message_preview ''Price changed'' = ''Price changed''"
  using message_preview_capped [of "replicate 81 CHR ''a''"]
    message_preview_capped [of "''Price changed''"]
  by simp

subsection \<open>The interval of a submitted monitor\<close>

text \<open>
  The decimal text of an integer is a numeral of that value, so the text that React
  writes into the interval field for a number of the state reads as that number.
\<close>

lemma parseInt_empty: "parseInt [] = NaN"
  by (simp add: parseInt_def)

lemma digits_value_snoc: "digits_value (ds @ [c]) = 10 * digits_value ds + digit_value c"
  by (simp add: digits_value_def)

lemma digit_char:
  assumes "d < 10"
  shows "is_digit (''0123456789'' ! d) \<and> digit_value (''0123456789'' ! d) = d"
proof -
  have "d = 0 \<or> d = 1 \<or> d = 2 \<or> d = 3 \<or> d = 4 \<or> d = 5 \<or> d = 6 \<or> d = 7 \<or> d = 8 \<or> d = 9"
    using assms by arith
  then show ?thesis
    by (elim disjE) (simp_all add: is_digit_def digit_value_def)
qed

lemma show_nat_digits:
  "show_nat n \<noteq> [] \<and> list_all is_digit (show_nat n) \<and> digits_value (show_nat n) = n"
proof (induction n rule: show_nat.induct)
  case (1 n)
  show ?case
  proof (cases "n < 10")
    case True
    then show ?thesis
      using digit_char [of n] by (simp add: show_nat.simps [of n] digits_value_def)
  next
    case False
    have d: "n mod 10 < 10" by simp
    show ?thesis
      using False "1.IH" digit_char [OF d]
      by (simp add: show_nat.simps [of n] digits_value_snoc)
  qed
qed

lemma parse_unsigned_digits:
  assumes "ds \<noteq> []" and "list_all is_digit ds"
  shows "parse_unsigned ds = Some (digits_value ds, 0)"
proof -
  have tw: "takeWhile is_digit ds = ds" and dw: "dropWhile is_digit ds = []"
    using assms(2) by (simp_all add: list_all_iff)
  show ?thesis
    using assms(1) by (simp add: parse_unsigned_def tw dw parse_fraction_def parse_exponent_def)
qed

lemma parse_float_show_int:
  "\<exists>d. parse_float (show_int n) = Some d \<and> decimal_int d = Some n"
proof (cases "n < 0")
  case True
  have "parse_float (''-'' @ show_nat (nat (- n))) = Some (Decimal True (nat (- n)) 0)"
    using show_nat_digits [of "nat (- n)"]
    by (simp add: parse_float_def parse_unsigned_digits)
  then show ?thesis
    using True by (simp add: show_int_def signed_def)
next
  case False
  obtain c cs where s: "show_nat (nat n) = c # cs"
    using show_nat_digits [of "nat n"] by (cases "show_nat (nat n)") auto
  have "is_digit c" using show_nat_digits [of "nat n"] s by simp
  then have c: "c \<noteq> CHR ''-''" by (auto simp: is_digit_def)
  have pu: "parse_unsigned (show_nat (nat n)) = Some (nat n, 0)"
    using show_nat_digits [of "nat n"] parse_unsigned_digits [of "show_nat (nat n)"] by simp
  have "take 1 (show_nat (nat n)) \<noteq> ''-''"
    using c s by simp
  then have "parse_float (show_nat (nat n)) = Some (Decimal False (nat n) 0)"
    by (simp add: parse_float_def pu)
  then show ?thesis
    using False by (simp add: show_int_def signed_def)
qed

lemma sanitize_show_int: "sanitize_number (show_int n) = show_int n"
  using parse_float_show_int [of n] by (auto simp: sanitize_number_def)

lemma show_int_not_empty: "show_int n \<noteq> []"
  using parse_float_show_int [of n] by (auto simp: float_defs)

text \<open>
  After an edit that leaves a number in the state, the field is not empty and its text
  reads as that number, whether React kept the text or replaced it.
\<close>

lemma rendered_text_is_state:
  assumes "parseInt v = Num n"
  shows "\<exists>d. render_number_value (Num n) v \<noteq> []
            \<and> parse_float (render_number_value (Num n) v) = Some d \<and> decimal_int d = Some n"
proof (cases "text_equals_number v n \<and> \<not> (n = 0 \<and> v = [])")
  case True
  have "v \<noteq> []" using assms by (auto simp: parseInt_empty)
  then show ?thesis
    using True by (auto simp: text_equals_number_def split: option.splits)
next
  case False
  then have "render_number_value (Num n) v = show_int n"
    by (auto simp: sanitize_show_int)
  then show ?thesis
    using parse_float_show_int [of n] show_int_not_empty [of n] by auto
qed

text \<open>
  So a submission that follows an edit of the interval field carries an interval within
  the bounds, or NaN.
\<close>

lemma submitted_interval_NaN_or_bounded:
  assumes "submit (onChange_check_interval raw f) = Some (req, f')"
  shows "check_interval (body req) = NaN
         \<or> (\<exists>n. check_interval (body req) = Num n \<and> 60 \<le> n \<and> n \<le> 86400)"
proof (cases "parseInt (sanitize_number raw)")
  case NaN
  then show ?thesis
    using assms
    by (auto simp: submit_def onChange_check_interval_def handleCreateMonitor_def
        createMonitor_def Let_def split: if_splits)
next
  case (Num n)
  obtain d where d: "render_number_value (Num n) (sanitize_number raw) \<noteq> []"
      "parse_float (render_number_value (Num n) (sanitize_number raw)) = Some d"
      "decimal_int d = Some n"
    using rendered_text_is_state [OF Num] by blast
  have valid: "interval_text_valid (render_number_value (Num n) (sanitize_number raw))"
    using assms Num
    by (auto simp: submit_def form_valid_def onChange_check_interval_def Let_def
        split: if_splits)
  have "60 \<le> n \<and> n \<le> 86400"
    using valid d by (simp add: interval_text_valid_def)
  moreover have "check_interval (body req) = Num n"
    using assms Num
    by (auto simp: submit_def onChange_check_interval_def handleCreateMonitor_def
        createMonitor_def Let_def split: if_splits)
  ultimately show ?thesis by simp
qed

text \<open>
  Claim C7. With a name and a url typed in, the form whose interval field was emptied
  passes the browser's validation and submits a monitor whose \<^verbatim>\<open>check_interval\<close> is
  NaN, which is neither at least 60 nor at most 86400: the handler stored
  \<^verbatim>\<open>parseInt\<close> of the empty text, and the field, empty and not required, holds back
  nothing. (The filled form itself is valid; with the name and the url empty the
  submission is held back; the text 59 is held back; the text 100.0 is submitted as the
  number 100.)
\<close>

theorem empty_interval_submits_NaN:
  "map_option (\<lambda>(req, f). (name (body req), url (body req), check_interval (body req)))
       (submit (onChange_check_interval [] filled_form))
     = Some (''Price watch'', ''https://example.com/'', NaN)
   \<and> form_valid filled_form
   \<and> interval_text (onChange_check_interval [] filled_form) = []
   \<and> submit (onChange_check_interval [] initial_form) = None
   \<and> submit (onChange_check_interval ''59'' filled_form) = None
   \<and> map_option (\<lambda>(req, f). check_interval (body req))
        (submit (onChange_check_interval ''100.0'' filled_form)) = Some (Num 100)"
  by (simp add: form_defs float_defs num_defs parseInt_def)

subsection \<open>Price equality\<close>

lemma decimal_eq_refl: "decimal_eq d d"
  by (cases d) simp

text \<open>
  A currency symbol in front of the digits and a grouping separator between them are
  formatting: the numeral that remains is the same without them.
\<close>

lemma trim_digit_first:
  assumes "is_digit c"
  shows "\<exists>w. trim (c # cs) = c # w \<and> trim (x # c # cs) = (if is_whitespace x then c # w else x # c # w)"
proof -
  have nw: "\<not> is_whitespace c" using assms by (rule is_digit_not_whitespace)
  have c_in: "c \<in> set (rev cs @ [c])" by simp
  obtain w where w: "rev (dropWhile is_whitespace (rev cs @ [c])) = c # w"
  proof -
    have "dropWhile is_whitespace (rev cs @ [c]) \<noteq> []"
      using nw by (simp add: dropWhile_eq_Nil_conv)
    moreover have "last (dropWhile is_whitespace (rev cs @ [c])) = c"
      using nw by (induction "rev cs" arbitrary: cs) (auto simp: dropWhile_append)
    ultimately obtain ys where "dropWhile is_whitespace (rev cs @ [c]) = ys @ [c]"
      by (metis append_butlast_last_id)
    then have "rev (dropWhile is_whitespace (rev cs @ [c])) = c # rev ys"
      by simp
    then show ?thesis by (rule that)
  qed
  have t1: "trim (c # cs) = c # w"
    using nw w by (simp add: trim_def)
  have d: "dropWhile is_whitespace ((rev cs @ [c]) @ [x]) = dropWhile is_whitespace (rev cs @ [c]) @ [x]"
    using c_in nw by (rule dropWhile_append1)
  have t2: "\<not> is_whitespace x \<Longrightarrow> trim (x # c # cs) = x # c # w"
    using d w by (simp add: trim_def)
  have t3: "is_whitespace x \<Longrightarrow> trim (x # c # cs) = c # w"
    using nw w by (simp add: trim_def)
  show ?thesis using t1 t2 t3 by auto
qed

lemma strip_currency_digit:
  "is_digit c \<Longrightarrow> strip_currency currency_symbols (c # w) = c # w"
  by (auto simp: currency_symbols_def is_digit_def)

lemma currency_symbol_is_formatting:
  assumes "is_digit c"
  shows "strip_formatting (''$'' @ c # cs) = strip_formatting (c # cs)"
proof -
  have nws: "\<not> is_whitespace CHR ''$''" by (simp add: is_whitespace_def)
  obtain w where w: "trim (c # cs) = c # w" "trim (CHR ''$'' # c # cs) = CHR ''$'' # c # w"
    using trim_digit_first [OF assms, of cs "CHR ''$''"] nws by auto
  have c: "c \<noteq> CHR ''-''" using assms by (auto simp: is_digit_def)
  have s1: "strip_currency currency_symbols (CHR ''$'' # c # w) = c # w"
    by (simp add: currency_symbols_def)
  have s2: "strip_currency currency_symbols (c # w) = c # w"
    using assms by (rule strip_currency_digit)
  show ?thesis
    using c by (simp add: strip_formatting_def w unformat_unsigned_def s1 s2)
qed

lemma is_digit_plain:
  "is_digit c \<Longrightarrow> \<not> is_whitespace c \<and> c \<noteq> CHR ''-'' \<and> c \<noteq> CHR '','' \<and> c \<noteq> CHR ''$''
     \<and> c \<noteq> CHR 0xE2 \<and> c \<noteq> CHR 0xC2"
  by (auto simp: is_digit_def is_whitespace_def)

lemma comma_not_digit: "\<not> is_digit CHR '',''"
  by (simp add: is_digit_def)

lemma grouping_separator_is_formatting:
  assumes "is_digit a" and "is_digit b" and "is_digit c" and "is_digit d"
  shows "strip_formatting [a, CHR '','', b, c, d] = Some [a, b, c, d]
         \<and> strip_formatting [a, b, c, d] = Some [a, b, c, d]"
  using assms is_digit_plain [of a] is_digit_plain [of b] is_digit_plain [of c]
    is_digit_plain [of d]
  by (simp add: price_defs comma_not_digit)

text \<open>
  Claim C3. Under the strategy price the change detector compares numbers. Two values
  that leave the same numeral when their currency and grouping formatting is removed
  give \<open>Unchanged\<close>; two values that parse as numbers give \<open>Unchanged\<close> exactly when
  the numbers are equal; and the previous value \<^verbatim>\<open>$1,200.00\<close> with the observed value
  \<^verbatim>\<open>1200\<close> gives \<open>Unchanged\<close>. A difference in sign, digits glued from two numbers, and
  an exponent read as digits are no formatting: those pairs (last three lines) are
  reported as changes.
\<close>

theorem price_equality_numeric:
  "(\<forall>t. strip_formatting a = Some t \<and> strip_formatting b = Some t \<and> parse_float t \<noteq> None \<longrightarrow>
        detect cap Price (Some a) b = Unchanged)
   \<and> (\<forall>x y. parse_number a = Some x \<and> parse_number b = Some y \<longrightarrow>
        (detect cap Price (Some a) b = Unchanged) = decimal_eq x y)
   \<and> detect cap Price (Some ''$1,200.00'') ''1200'' = Unchanged
   \<and> detect cap Price (Some ''-1200'') ''1200'' \<noteq> Unchanged
   \<and> detect cap Price (Some ''12 for $100'') ''12100'' \<noteq> Unchanged
   \<and> detect cap Price (Some ''1e3'') ''13'' \<noteq> Unchanged"
proof -
  have a: "detect cap Price (Some a) b = Unchanged"
    if "strip_formatting a = Some t" "strip_formatting b = Some t" "parse_float t \<noteq> None" for t
    using that by (auto simp: detect_def values_equal_def parse_number_def numeric_eq_def decimal_eq_refl)
  have b: "(detect cap Price (Some a) b = Unchanged) = decimal_eq x y"
    if "parse_number a = Some x" "parse_number b = Some y" for x y
    using that by (simp add: detect_def values_equal_def numeric_eq_def)
  have p1: "parse_number ''$1,200.00'' = Some (Decimal False 120000 (-2))"
    by (simp add: price_defs float_defs num_defs)
  have p2: "parse_number ''1200'' = Some (Decimal False 1200 0)"
    by (simp add: price_defs float_defs num_defs)
  have p3: "parse_number ''-1200'' = Some (Decimal True 1200 0)"
    by (simp add: price_defs float_defs num_defs)
  have p4: "parse_number ''12 for $100'' = None"
    by (simp add: price_defs float_defs num_defs)
  have p5: "parse_number ''1e3'' = Some (Decimal False 1 3)"
    by (simp add: price_defs float_defs num_defs)
  have p6: "parse_number ''13'' = Some (Decimal False 13 0)"
    by (simp add: price_defs float_defs num_defs)
  have c: "detect cap Price (Some ''$1,200.00'') ''1200'' = Unchanged"
    by (simp add: detect_def values_equal_def numeric_eq_def p1 p2 signed_def)
  have d: "detect cap Price (Some ''-1200'') ''1200'' \<noteq> Unchanged"
    by (simp add: detect_def values_equal_def numeric_eq_def p3 p2 signed_def)
  have e: "detect cap Price (Some ''12 for $100'') ''12100'' \<noteq> Unchanged"
    by (simp add: detect_def values_equal_def p4)
  have f: "detect cap Price (Some ''1e3'') ''13'' \<noteq> Unchanged"
    by (simp add: detect_def values_equal_def numeric_eq_def p5 p6 signed_def)
  show ?thesis using a b c d e f by blast
qed

text \<open>
  The values \<^verbatim>\<open>$1,200.00\<close> and \<^verbatim>\<open>1200.00\<close> (in white space) leave the same numeral;
  \<^verbatim>\<open>$1,200.00\<close> and \<^verbatim>\<open>1200\<close> parse as equal numbers; \<^verbatim>\<open>1200\<close> and \<^verbatim>\<open>1300\<close> parse as
  different numbers and are reported as a change.
\<close>

theorem price_equality_numeric_witness:
  "strip_formatting ''$1,200.00'' = Some ''1200.00''
   \<and> strip_formatting '' 1200.00 '' = Some ''1200.00''
   \<and> parse_float ''1200.00'' = Some (Decimal False 120000 (-2))
   \<and> detect 80 Price (Some ''$1,200.00'') '' 1200.00 '' = Unchanged
   \<and> parse_number ''$1,200.00'' = Some (Decimal False 120000 (-2))
   \<and> parse_number ''1200'' = Some (Decimal False 1200 0)
   \<and> decimal_eq (Decimal False 120000 (-2)) (Decimal False 1200 0)
   \<and> detect 80 Price (Some ''$1,200.00'') ''1200'' = Unchanged
   \<and> parse_number ''1300'' = Some (Decimal False 1300 0)
   \<and> detect 80 Price (Some ''1200'') ''1300'' = Changed ''1200'' ''1300'' ''1200 -> 1300''"
  using price_equality_numeric [of "''$1,200.00''" "'' 1200.00 ''" 80]
    price_equality_numeric [of "''$1,200.00''" "''1200''" 80]
    price_equality_numeric [of "''1200''" "''1300''" 80]
  by (simp add: price_defs float_defs num_defs detect_def values_equal_def numeric_eq_def
      diffSummary_def)

end
